theory Spec2Isabelle
  imports Complex_Main "HOL-Library.Multiset" "HOL-Library.Sublist"
begin

section \<open>Exceptions\<close>

text \<open>
  Every \<^verbatim>\<open>raise\<close> of \<^verbatim>\<open>backend/diagnose.py\<close> and \<^verbatim>\<open>backend/app.py\<close> is a value of
  \<open>exc\<close>; a function that may raise returns \<open>exc + 'a\<close> with \<open>Inl\<close> the exception.
  The detail of an \<^verbatim>\<open>HTTPException\<close> is either a string literal of the source or
  \<^verbatim>\<open>str(e)\<close> of a caught exception, which is kept symbolic as \<open>Str e\<close>.
\<close>

datatype exc =
    FileNotFoundError string
  | OSError string
  | UnpicklingError string
  | ParserError string
  | ValueError string
  | IndexError string
  | HTTPException nat detail
and detail =
    Literal string
  | Str exc

section \<open>Data model\<close>

text \<open>
  A row of \<^verbatim>\<open>data/diseases.csv\<close> and of \<^verbatim>\<open>data/medicines.csv\<close>, with the columns the
  code reads (\<^verbatim>\<open>diagnose\<close>, \<^verbatim>\<open>print_diagnosis_result\<close>, \<^verbatim>\<open>analyze_medicine\<close>). A data
  frame is the list of its rows in file order.
\<close>

record disease =
  d_name :: string
  d_description :: string
  d_severity :: string
  d_contagious :: string
  d_precautions :: string

record medicine =
  m_name :: string
  m_diagnosis :: string
  m_usage :: string
  m_dosage :: string
  m_side_effects :: string

text \<open>
  The classifier is loaded from a joblib artifact and used through \<^verbatim>\<open>classes_\<close> and
  \<^verbatim>\<open>predict_proba\<close> only. \<open>predict_proba m features\<close> stands for
  \<^verbatim>\<open>m.predict_proba([features])[0]\<close>; it may raise. Probabilities and feature entries
  are finite floats, compared exactly; they are modelled as rationals.
\<close>

record classifier =
  classes :: "string list"
  predict_proba :: "rat list \<Rightarrow> exc + rat list"

record diagnosis_system =
  model :: classifier
  symptom_columns :: "string list"
  diseases_df :: "disease list"
  medicines_df :: "medicine list"

text \<open>An entry of \<^verbatim>\<open>possible_diagnoses\<close> is the pair (disease, confidence).\<close>

record diagnosis_result =
  diagnosis :: string
  confidence :: rat
  possible_diagnoses :: "(string \<times> rat) list"
  disease_info :: disease
  medicines :: "medicine list"

section \<open>Feature vector (diagnose.py, lines 62-67)\<close>

text \<open>
  \<open>index_of xs x\<close> is \<^verbatim>\<open>xs.index(x)\<close>, the first position of \<open>x\<close>, and \<open>None\<close>
  exactly when \<^verbatim>\<open>x in xs\<close> is false, so that the membership test and the index of
  the source are one case distinction.
\<close>

fun index_of :: "'a list \<Rightarrow> 'a \<Rightarrow> nat option" where
  "index_of [] x = None"
| "index_of (y # ys) x =
     (if y = x then Some 0 else map_option Suc (index_of ys x))"

definition mark :: "string list \<Rightarrow> rat list \<Rightarrow> string \<Rightarrow> rat list" where
  "mark cols features symptom =
     (case index_of cols symptom of
        None \<Rightarrow> features
      | Some idx \<Rightarrow> features[idx := 1])"

definition encode :: "string list \<Rightarrow> string list \<Rightarrow> rat list" where
  "encode cols symptoms = foldl (mark cols) (replicate (length cols) 0) symptoms"

section \<open>Ranking (diagnose.py, lines 69-84)\<close>

text \<open>
  \<^verbatim>\<open>np.argsort(probs)\<close> returns the indices of \<open>probs\<close> in ascending order of their
  value. With its default sort kind numpy promises no order among equal values.
  \<open>is_argsort probs idxs\<close> is what it promises of its result \<open>idxs\<close>: a permutation of
  the indices, ascending by value.
\<close>

definition is_argsort :: "rat list \<Rightarrow> nat list \<Rightarrow> bool" where
  "is_argsort probs idxs =
     (mset idxs = mset [0..<length probs] \<and> sorted (map (\<lambda>i. probs ! i) idxs))"

text \<open>
  \<open>argsort\<close> is the ascending order that leaves equal values in the order of their
  indices. It is the result of \<^verbatim>\<open>np.argsort\<close> whenever no two probabilities are equal;
  on equal probabilities numpy may return another order.
\<close>

definition argsort :: "rat list \<Rightarrow> nat list" where
  "argsort probs = sort_key (\<lambda>i. probs ! i) [0..<length probs]"

text \<open>\<^verbatim>\<open>np.argsort(probs)[-3:][::-1]\<close>: the last three (all, if fewer), reversed.\<close>

definition top_indices :: "rat list \<Rightarrow> nat list" where
  "top_indices probs =
     rev (drop (length (argsort probs) - 3) (argsort probs))"

text \<open>\<^verbatim>\<open>classes[idx]\<close> raises IndexError out of range; \<open>idx\<close> is in range of \<open>probs\<close>.\<close>

definition entry :: "string list \<Rightarrow> rat list \<Rightarrow> nat \<Rightarrow> exc + (string \<times> rat)" where
  "entry cls probs idx =
     (if idx < length cls then Inr (cls ! idx, probs ! idx)
      else Inl (IndexError ''index out of bounds''))"

fun collect :: "(exc + 'a) list \<Rightarrow> exc + 'a list" where
  "collect [] = Inr []"
| "collect (Inl e # rs) = Inl e"
| "collect (Inr x # rs) = (case collect rs of Inl e \<Rightarrow> Inl e | Inr xs \<Rightarrow> Inr (x # xs))"

definition rank :: "string list \<Rightarrow> rat list \<Rightarrow> exc + (string \<times> rat) list" where
  "rank cls probs = collect (map (entry cls probs) (top_indices probs))"

text \<open>
  The same selection with the result of \<^verbatim>\<open>np.argsort\<close> as a parameter \<open>order\<close>, for
  what holds whatever order numpy returns on equal probabilities.
\<close>

definition top_indices_by :: "(rat list \<Rightarrow> nat list) \<Rightarrow> rat list \<Rightarrow> nat list" where
  "top_indices_by order probs =
     rev (drop (length (order probs) - 3) (order probs))"

definition rank_by ::
  "(rat list \<Rightarrow> nat list) \<Rightarrow> string list \<Rightarrow> rat list \<Rightarrow> exc + (string \<times> rat) list" where
  "rank_by order cls probs = collect (map (entry cls probs) (top_indices_by order probs))"

section \<open>Joins against the reference tables (diagnose.py, lines 86-106)\<close>

definition placeholder :: "string \<Rightarrow> disease" where
  "placeholder primary_diagnosis =
     \<lparr> d_name = primary_diagnosis,
       d_description = ''Information not available'',
       d_severity = ''Unknown'',
       d_contagious = ''Unknown'',
       d_precautions = ''Consult a healthcare professional'' \<rparr>"

text \<open>\<^verbatim>\<open>df[df['name'] == primary].iloc[0]\<close>, with the IndexError handler of the source.\<close>

definition lookup_disease :: "disease list \<Rightarrow> string \<Rightarrow> disease" where
  "lookup_disease df primary_diagnosis =
     (case filter (\<lambda>d. d_name d = primary_diagnosis) df of
        [] \<Rightarrow> placeholder primary_diagnosis
      | d # _ \<Rightarrow> d)"

definition recommend :: "medicine list \<Rightarrow> string \<Rightarrow> medicine list" where
  "recommend df primary_diagnosis = filter (\<lambda>m. m_diagnosis m = primary_diagnosis) df"

section \<open>DiagnosisSystem.diagnose\<close>

definition diagnose :: "diagnosis_system \<Rightarrow> string list \<Rightarrow> exc + diagnosis_result" where
  "diagnose sys symptoms =
     (let features = encode (symptom_columns sys) symptoms in
      case predict_proba (model sys) features of
        Inl e \<Rightarrow> Inl e
      | Inr probs \<Rightarrow>
          (case rank (classes (model sys)) probs of
             Inl e \<Rightarrow> Inl e
           | Inr [] \<Rightarrow> Inl (IndexError ''list index out of range'')
           | Inr (p # ps) \<Rightarrow>
               Inr \<lparr> diagnosis = fst p,
                     confidence = snd p,
                     possible_diagnoses = p # ps,
                     disease_info = lookup_disease (diseases_df sys) (fst p),
                     medicines = recommend (medicines_df sys) (fst p) \<rparr>))"

text \<open>\<^verbatim>\<open>diagnose\<close> with the result of \<^verbatim>\<open>np.argsort\<close> as the parameter \<open>order\<close>.\<close>

definition diagnose_by ::
  "(rat list \<Rightarrow> nat list) \<Rightarrow> diagnosis_system \<Rightarrow> string list \<Rightarrow> exc + diagnosis_result" where
  "diagnose_by order sys symptoms =
     (let features = encode (symptom_columns sys) symptoms in
      case predict_proba (model sys) features of
        Inl e \<Rightarrow> Inl e
      | Inr probs \<Rightarrow>
          (case rank_by order (classes (model sys)) probs of
             Inl e \<Rightarrow> Inl e
           | Inr [] \<Rightarrow> Inl (IndexError ''list index out of range'')
           | Inr (p # ps) \<Rightarrow>
               Inr \<lparr> diagnosis = fst p,
                     confidence = snd p,
                     possible_diagnoses = p # ps,
                     disease_info = lookup_disease (diseases_df sys) (fst p),
                     medicines = recommend (medicines_df sys) (fst p) \<rparr>))"

section \<open>The request handler of POST /diagnose (app.py, lines 48-59)\<close>

text \<open>
  The handler raises its own 400 inside the \<^verbatim>\<open>try\<close> whose \<^verbatim>\<open>except Exception\<close>
  turns every exception into a 500 with \<^verbatim>\<open>detail=str(e)\<close>.
\<close>

definition diagnose_endpoint :: "diagnosis_system \<Rightarrow> string list \<Rightarrow> exc + diagnosis_result" where
  "diagnose_endpoint sys symptoms =
     (case (if symptoms = [] then Inl (HTTPException 400 (Literal ''No symptoms provided''))
            else diagnose sys symptoms) of
        Inl e \<Rightarrow> Inl (HTTPException 500 (Str e))
      | Inr result \<Rightarrow> Inr result)"

section \<open>Medicine text matching (app.py, lines 90-115)\<close>

text \<open>
  \<^verbatim>\<open>str.lower\<close> and \<^verbatim>\<open>str.strip\<close> on ASCII text: the letters A-Z are mapped to a-z,
  and the whitespace characters are U+0009..U+000D, U+001C..U+001F and the space.
\<close>

definition lower_char :: "char \<Rightarrow> char" where
  "lower_char c =
     (case map_of (zip ''ABCDEFGHIJKLMNOPQRSTUVWXYZ'' ''abcdefghijklmnopqrstuvwxyz'') c of
        Some l \<Rightarrow> l
      | None \<Rightarrow> c)"

definition lower :: "string \<Rightarrow> string" where
  "lower s = map lower_char s"

definition is_space :: "char \<Rightarrow> bool" where
  "is_space c = ((of_char c :: nat) \<in> {9, 10, 11, 12, 13, 28, 29, 30, 31, 32})"

definition strip :: "string \<Rightarrow> string" where
  "strip s = rev (dropWhile is_space (rev (dropWhile is_space s)))"

text \<open>\<open>contains text pat\<close> is \<^verbatim>\<open>pat in text\<close> on strings.\<close>

fun contains :: "string \<Rightarrow> string \<Rightarrow> bool" where
  "contains [] pat = (pat = [])"
| "contains (c # cs) pat = (prefix pat (c # cs) \<or> contains cs pat)"

datatype match_response =
    Not_found string string
  | Success "medicine list" string

text \<open>
  One iteration of the loop over \<^verbatim>\<open>medicines_df.iterrows()\<close>, then the loop, then the
  response: \<open>Not_found message extracted_text\<close> or \<open>Success medicines extracted_text\<close>.
\<close>

definition match_step :: "string \<Rightarrow> medicine list \<Rightarrow> medicine \<Rightarrow> medicine list" where
  "match_step text matches row =
     (let medicine_name = lower (m_name row)
      in if contains text medicine_name then matches @ [row] else matches)"

definition find_matches :: "string \<Rightarrow> medicine list \<Rightarrow> medicine list" where
  "find_matches text df = foldl (match_step text) [] df"

definition match_text :: "medicine list \<Rightarrow> string \<Rightarrow> match_response" where
  "match_text df ocr_text =
     (let text = lower (strip ocr_text);
          matches = find_matches text df
      in if matches = [] then Not_found ''No medicine information found in the image'' text
         else Success matches text)"

text \<open>The match set of a response; a response without matches carries none.\<close>

fun matches_of :: "match_response \<Rightarrow> medicine list" where
  "matches_of (Not_found message extracted_text) = []"
| "matches_of (Success matches extracted_text) = matches"

section \<open>DiagnosisSystem.__init__ (diagnose.py, lines 13-55)\<close>

text \<open>
  The files the constructor reads are its input. Each is missing, present but
  unreadable, present but rejected by its loader, or has a content: the unpickled
  classifier, the lines of the vocabulary file, the rows of a CSV file (none for a file
  with a header only).
\<close>

datatype 'a source = Missing | Unreadable | Malformed | Content 'a

text \<open>A source is usable when its loader returns a content.\<close>

definition usable :: "'a source \<Rightarrow> bool" where
  "usable src = (case src of Content x \<Rightarrow> True | _ \<Rightarrow> False)"

record files =
  model_file :: "classifier source"
  columns_file :: "string list source"
  diseases_file :: "disease list source"
  medicines_file :: "medicine list source"

definition path_exists :: "'a source \<Rightarrow> bool" where
  "path_exists src = (src \<noteq> Missing)"

text \<open>
  \<^verbatim>\<open>joblib.load\<close>, reading the lines of an opened text file, and \<^verbatim>\<open>pd.read_csv\<close>
  differ in the exception for a content they reject.
\<close>

definition load :: "exc \<Rightarrow> 'a source \<Rightarrow> exc + 'a" where
  "load rejected src =
     (case src of
        Missing \<Rightarrow> Inl (FileNotFoundError ''No such file or directory'')
      | Unreadable \<Rightarrow> Inl (OSError ''Permission denied'')
      | Malformed \<Rightarrow> Inl rejected
      | Content x \<Rightarrow> Inr x)"

definition joblib_load :: "classifier source \<Rightarrow> exc + classifier" where
  "joblib_load = load (UnpicklingError ''invalid load key'')"

definition read_lines :: "string list source \<Rightarrow> exc + string list" where
  "read_lines = load (ValueError ''codec cannot decode byte'')"

definition read_csv :: "'a list source \<Rightarrow> exc + 'a list" where
  "read_csv = load (ParserError ''Error tokenizing data'')"

definition init :: "files \<Rightarrow> exc + diagnosis_system" where
  "init fs =
     (if \<not> path_exists (model_file fs) \<or> \<not> path_exists (columns_file fs)
      then Inl (FileNotFoundError ''Model files not found'')
      else
        case joblib_load (model_file fs) of
          Inl e \<Rightarrow> Inl e
        | Inr m \<Rightarrow>
        (case read_lines (columns_file fs) of
          Inl e \<Rightarrow> Inl e
        | Inr lines \<Rightarrow>
        (case read_csv (diseases_file fs) of
          Inl e \<Rightarrow> Inl e
        | Inr ds \<Rightarrow>
        (case read_csv (medicines_file fs) of
          Inl e \<Rightarrow> Inl e
        | Inr ms \<Rightarrow>
            if ds = [] \<or> ms = [] then Inl (ValueError ''CSV files are empty'')
            else Inr \<lparr> model = m,
                       symptom_columns = map strip lines,
                       diseases_df = ds,
                       medicines_df = ms \<rparr>))))"

section \<open>Example data\<close>

text \<open>
  The vocabulary of \<^verbatim>\<open>main()\<close> in \<^verbatim>\<open>diagnose.py\<close>, and classifiers that answer every
  feature vector with one fixed distribution.
\<close>

definition ex_columns :: "string list" where
  "ex_columns = [''fever'', ''cough'', ''headache'', ''sore_throat'']"

definition ex_classifier :: classifier where
  "ex_classifier =
     \<lparr> classes = [''cold'', ''flu'', ''migraine''],
       predict_proba = (\<lambda>features. Inr [2 / 10, 7 / 10, 1 / 10]) \<rparr>"

definition tie_classifier :: classifier where
  "tie_classifier =
     \<lparr> classes = [''cold'', ''flu''],
       predict_proba = (\<lambda>features. Inr [1 / 2, 1 / 2]) \<rparr>"

definition ex_diseases :: "disease list" where
  "ex_diseases =
     [\<lparr> d_name = ''cold'', d_description = ''Common cold'', d_severity = ''Mild'',
        d_contagious = ''Yes'', d_precautions = ''Rest'' \<rparr>]"

definition paracetamol :: medicine where
  "paracetamol =
     \<lparr> m_name = ''Paracetamol'', m_diagnosis = ''Flu'', m_usage = ''Fever'',
       m_dosage = ''500mg'', m_side_effects = ''Nausea'' \<rparr>"

definition ibuprofen :: medicine where
  "ibuprofen =
     \<lparr> m_name = ''Ibuprofen'', m_diagnosis = ''flu'', m_usage = ''Pain'',
       m_dosage = ''200mg'', m_side_effects = ''Heartburn'' \<rparr>"

definition cetirizine :: medicine where
  "cetirizine =
     \<lparr> m_name = ''Cetirizine'', m_diagnosis = ''cold'', m_usage = ''Allergy'',
       m_dosage = ''10mg'', m_side_effects = ''Drowsiness'' \<rparr>"

text \<open>A row whose name cell ends with a space, as \<^verbatim>\<open>pd.read_csv\<close> keeps it.\<close>

definition aspirin :: medicine where
  "aspirin =
     \<lparr> m_name = ''Aspirin '', m_diagnosis = ''Flu'', m_usage = ''Pain'',
       m_dosage = ''300mg'', m_side_effects = ''Nausea'' \<rparr>"

definition ex_medicines :: "medicine list" where
  "ex_medicines = [paracetamol, ibuprofen, cetirizine]"

definition ex_system :: diagnosis_system where
  "ex_system =
     \<lparr> model = ex_classifier, symptom_columns = ex_columns,
       diseases_df = ex_diseases, medicines_df = ex_medicines \<rparr>"

definition tie_system :: diagnosis_system where
  "tie_system =
     \<lparr> model = tie_classifier, symptom_columns = ex_columns,
       diseases_df = ex_diseases, medicines_df = ex_medicines \<rparr>"

definition tied_system :: diagnosis_system where
  "tied_system =
     \<lparr> model = \<lparr> classes = [''asthma'', ''cold'', ''flu'', ''migraine''],
                 predict_proba = (\<lambda>features. Inr [1 / 2, 1 / 2, 1 / 4, 0]) \<rparr>,
       symptom_columns = ex_columns,
       diseases_df = ex_diseases, medicines_df = ex_medicines \<rparr>"

definition two_class_system :: diagnosis_system where
  "two_class_system =
     \<lparr> model = \<lparr> classes = [''cold'', ''flu''],
                 predict_proba = (\<lambda>features. Inr [3 / 10, 7 / 10]) \<rparr>,
       symptom_columns = ex_columns,
       diseases_df = ex_diseases, medicines_df = ex_medicines \<rparr>"

definition flu_system :: diagnosis_system where
  "flu_system =
     \<lparr> model = \<lparr> classes = [''Cold'', ''Flu''],
                 predict_proba = (\<lambda>features. Inr [1 / 4, 3 / 4]) \<rparr>,
       symptom_columns = ex_columns,
       diseases_df = ex_diseases, medicines_df = ex_medicines \<rparr>"

definition ex_files :: files where
  "ex_files =
     \<lparr> model_file = Content ex_classifier,
       columns_file = Content [''fever'', ''cough '', ''headache'', ''sore_throat''],
       diseases_file = Content ex_diseases,
       medicines_file = Content ex_medicines \<rparr>"

section \<open>The feature vector\<close>

lemma index_of_None: "index_of xs x = None \<longleftrightarrow> x \<notin> set xs"
  by (induction xs) auto
lemma index_of_Some: "index_of xs x = Some i \<Longrightarrow> i < length xs \<and> xs ! i = x"
  by (induction xs arbitrary: i) (auto split: if_splits)
lemma index_of_inj: "index_of xs x = Some i \<Longrightarrow> index_of xs y = Some i \<Longrightarrow> x = y"
  by (metis index_of_Some)
lemma index_of_mem: "x \<in> set xs \<Longrightarrow> \<exists>i. index_of xs x = Some i"
  using index_of_None[of xs x] by (cases "index_of xs x") auto

lemma length_mark: "length (mark cols f s) = length f"
  by (simp add: mark_def split: option.splits)

lemma length_foldl_mark: "length (foldl (mark cols) f S) = length f"
  by (induction S arbitrary: f) (simp_all add: length_mark)

lemma nth_mark:
  "i < length f \<Longrightarrow> mark cols f s ! i = (if index_of cols s = Some i then 1 else f ! i)"
  by (auto simp: mark_def nth_list_update split: option.splits)

lemma nth_foldl_mark:
  "i < length f \<Longrightarrow>
   foldl (mark cols) f S ! i = (if \<exists>s\<in>set S. index_of cols s = Some i then 1 else f ! i)"
proof (induction S arbitrary: f)
  case Nil
  then show ?case by simp
next
  case (Cons s S)
  have "i < length (mark cols f s)" using Cons.prems by (simp add: length_mark)
  from Cons.IH[OF this] show ?case using Cons.prems by (auto simp: nth_mark)
qed

lemma length_encode: "length (encode cols S) = length cols"
  by (simp add: encode_def length_foldl_mark)

lemma nth_encode:
  "i < length cols \<Longrightarrow>
   encode cols S ! i = (if \<exists>s\<in>set S. index_of cols s = Some i then 1 else 0)"
  by (simp add: encode_def nth_foldl_mark)

lemma encode_set_cong: "set S = set S' \<Longrightarrow> encode cols S = encode cols S'"
  by (rule nth_equalityI) (simp_all add: length_encode nth_encode)

lemma encode_Nil: "encode cols [] = replicate (length cols) 0"
  by (simp add: encode_def)

lemma encode_entries: "set (encode cols S) \<subseteq> {0, 1}"
proof
  fix x assume "x \<in> set (encode cols S)"
  then obtain i where "i < length cols" "x = encode cols S ! i"
    by (auto simp: in_set_conv_nth length_encode)
  then show "x \<in> {0, 1}" by (simp add: nth_encode)
qed

lemma marked_positions:
  "{i. i < length cols \<and> (\<exists>s\<in>set S. index_of cols s = Some i)} =
   (\<lambda>s. the (index_of cols s)) ` (set S \<inter> set cols)"
proof (intro set_eqI iffI)
  fix i assume "i \<in> {i. i < length cols \<and> (\<exists>s\<in>set S. index_of cols s = Some i)}"
  then obtain s where s: "s \<in> set S" "index_of cols s = Some i" by auto
  then have "s \<in> set cols" using index_of_None[of cols s] by auto
  with s show "i \<in> (\<lambda>s. the (index_of cols s)) ` (set S \<inter> set cols)" by force
next
  fix i assume "i \<in> (\<lambda>s. the (index_of cols s)) ` (set S \<inter> set cols)"
  then obtain s where s: "s \<in> set S" "s \<in> set cols" "i = the (index_of cols s)" by auto
  from index_of_mem[OF s(2)] s(3) have "index_of cols s = Some i" by auto
  with s(1) index_of_Some[OF this]
  show "i \<in> {i. i < length cols \<and> (\<exists>s\<in>set S. index_of cols s = Some i)}" by auto
qed

lemma inj_on_index_of: "inj_on (\<lambda>s. the (index_of cols s)) (set cols)"
proof (rule inj_onI)
  fix x y assume "x \<in> set cols" "y \<in> set cols" "the (index_of cols x) = the (index_of cols y)"
  then show "x = y" using index_of_mem[of x cols] index_of_mem[of y cols] index_of_inj[of cols x _ y]
    by auto
qed

lemma count_ones_encode:
  "length (filter (\<lambda>x. x = 1) (encode cols S)) = card (set S \<inter> set cols)"
proof -
  have "length (filter (\<lambda>x. x = 1) (encode cols S)) =
        card {i. i < length cols \<and> encode cols S ! i = 1}"
    by (simp add: length_filter_conv_card length_encode)
  also have "{i. i < length cols \<and> encode cols S ! i = 1} =
             {i. i < length cols \<and> (\<exists>s\<in>set S. index_of cols s = Some i)}"
    by (auto simp: nth_encode split: if_splits)
  also have "\<dots> = (\<lambda>s. the (index_of cols s)) ` (set S \<inter> set cols)"
    by (rule marked_positions)
  also have "card \<dots> = card (set S \<inter> set cols)"
    by (rule card_image) (rule inj_on_subset[OF inj_on_index_of], simp)
  finally show ?thesis .
qed

lemma encode_unknown:
  assumes "set S \<inter> set cols = {}"
  shows "encode cols S = replicate (length cols) 0"
proof (rule nth_equalityI)
  show "length (encode cols S) = length (replicate (length cols) (0::rat))"
    by (simp add: length_encode)
next
  fix i assume "i < length (encode cols S)"
  then have i: "i < length cols" by (simp add: length_encode)
  have "\<not> (\<exists>s\<in>set S. index_of cols s = Some i)"
    using assms index_of_None[of cols] by force
  with i show "encode cols S ! i = replicate (length cols) 0 ! i"
    by (simp add: nth_encode)
qed

text \<open>
  C5. For every list \<open>S\<close> of symptom identifiers, the feature vector has the length of
  the vocabulary, its entries are 0 or 1 only, and the number of entries 1 is the number
  of distinct identifiers of \<open>S\<close> that are in the vocabulary. The vector depends on the
  set of \<open>S\<close> only (neither on order nor on duplicates), identifiers outside the
  vocabulary leave it all zeros, and so does the empty input. The function is total:
  nothing raises.
\<close>

theorem encode_spec:
  "length (encode cols S) = length cols \<and>
   set (encode cols S) \<subseteq> {0, 1} \<and>
   length (filter (\<lambda>x. x = 1) (encode cols S)) = card (set S \<inter> set cols) \<and>
   (set S = set S' \<longrightarrow> encode cols S = encode cols S') \<and>
   (set S \<inter> set cols = {} \<longrightarrow> encode cols S = replicate (length cols) 0) \<and>
   encode cols [] = replicate (length cols) 0"
proof (intro conjI impI)
  show "length (encode cols S) = length cols" by (rule length_encode)
  show "set (encode cols S) \<subseteq> {0, 1}" by (rule encode_entries)
  show "length (filter (\<lambda>x. x = 1) (encode cols S)) = card (set S \<inter> set cols)"
    by (rule count_ones_encode)
  show "encode cols S = encode cols S'" if "set S = set S'"
    using that by (rule encode_set_cong)
  show "encode cols S = replicate (length cols) 0" if "set S \<inter> set cols = {}"
    using that by (rule encode_unknown)
  show "encode cols [] = replicate (length cols) 0" by (rule encode_Nil)
qed

theorem encode_spec_witness:
  "set [''fever'', ''xyz'', ''cough'', ''fever''] = set [''cough'', ''fever'', ''xyz''] \<and>
   encode ex_columns [''fever'', ''xyz'', ''cough'', ''fever''] = [1, 1, 0, 0] \<and>
   encode ex_columns [''fever'', ''xyz'', ''cough'', ''fever''] =
     encode ex_columns [''cough'', ''fever'', ''xyz''] \<and>
   card (set [''fever'', ''xyz'', ''cough'', ''fever''] \<inter> set ex_columns) = 2 \<and>
   set [''xyz''] \<inter> set ex_columns = {} \<and>
   encode ex_columns [''xyz''] = [0, 0, 0, 0]"
proof -
  have s: "set [''fever'', ''xyz'', ''cough'', ''fever''] = set [''cough'', ''fever'', ''xyz'']"
    by auto
  have u: "set [''xyz''] \<inter> set ex_columns = {}"
    by (simp add: ex_columns_def)
  have v: "encode ex_columns [''fever'', ''xyz'', ''cough'', ''fever''] = [1, 1, 0, 0]"
    by (simp add: encode_def mark_def ex_columns_def)
  from encode_spec[of ex_columns "[''fever'', ''xyz'', ''cough'', ''fever'']"
      "[''cough'', ''fever'', ''xyz'']"] s
  have a: "encode ex_columns [''fever'', ''xyz'', ''cough'', ''fever''] =
           encode ex_columns [''cough'', ''fever'', ''xyz'']"
    and c: "length (filter (\<lambda>x. x = 1) (encode ex_columns [''fever'', ''xyz'', ''cough'', ''fever''])) =
            card (set [''fever'', ''xyz'', ''cough'', ''fever''] \<inter> set ex_columns)"
    by blast+
  from encode_spec[of ex_columns "[''xyz'']"] u
  have b: "encode ex_columns [''xyz''] = replicate (length ex_columns) 0" by blast
  have b': "encode ex_columns [''xyz''] = [0, 0, 0, 0]"
    using b by (simp add: ex_columns_def)
  have c': "card (set [''fever'', ''xyz'', ''cough'', ''fever''] \<inter> set ex_columns) = 2"
    using c by (simp add: v)
  show ?thesis using s u v a b' c' by blast
qed

section \<open>The ranking\<close>

lemma collect_entries:
  "\<forall>i\<in>set idxs. i < length cls \<Longrightarrow>
   collect (map (entry cls probs) idxs) = Inr (map (\<lambda>i. (cls ! i, probs ! i)) idxs)"
  by (induction idxs) (simp_all add: entry_def)

lemma set_argsort: "set (argsort probs) = {..<length probs}"
  by (auto simp: argsort_def)

lemma length_argsort: "length (argsort probs) = length probs"
  by (simp add: argsort_def)

lemma distinct_argsort: "distinct (argsort probs)"
  by (simp add: argsort_def)

lemma top_indices_take: "top_indices probs = take 3 (rev (argsort probs))"
  by (simp add: top_indices_def take_rev)

lemma set_top_indices: "set (top_indices probs) \<subseteq> {..<length probs}"
  unfolding top_indices_def using set_drop_subset[of _ "argsort probs"] set_argsort[of probs]
  by auto

lemma length_top_indices: "length (top_indices probs) = min 3 (length probs)"
  by (simp add: top_indices_take length_argsort)

lemma rank_Inr:
  "length probs \<le> length cls \<Longrightarrow>
   rank cls probs = Inr (map (\<lambda>i. (cls ! i, probs ! i)) (top_indices probs))"
  unfolding rank_def using set_top_indices[of probs] by (intro collect_entries) auto

lemma diagnose_ranked:
  assumes "predict_proba (model sys) (encode (symptom_columns sys) symptoms) = Inr probs"
    and "rank (classes (model sys)) probs = Inr (p # ps)"
  shows "diagnose sys symptoms =
     Inr \<lparr> diagnosis = fst p, confidence = snd p, possible_diagnoses = p # ps,
           disease_info = lookup_disease (diseases_df sys) (fst p),
           medicines = recommend (medicines_df sys) (fst p) \<rparr>"
  using assms by (simp add: diagnose_def)

lemma top_indices_nonempty: "probs \<noteq> [] \<Longrightarrow> top_indices probs \<noteq> []"
  using length_top_indices[of probs] by (cases probs) auto

lemma diagnose_well_formed:
  assumes "predict_proba (model sys) (encode (symptom_columns sys) symptoms) = Inr probs"
    and "length (classes (model sys)) = length probs" and "probs \<noteq> []"
  shows "\<exists>r. diagnose sys symptoms = Inr r \<and>
     possible_diagnoses r =
       map (\<lambda>i. (classes (model sys) ! i, probs ! i)) (top_indices probs)"
proof -
  let ?f = "\<lambda>i. (classes (model sys) ! i, probs ! i)"
  have r: "rank (classes (model sys)) probs = Inr (map ?f (top_indices probs))"
    using assms(2) by (simp add: rank_Inr)
  obtain i rest where t: "top_indices probs = i # rest"
    using top_indices_nonempty[OF assms(3)] by (cases "top_indices probs") auto
  have "rank (classes (model sys)) probs = Inr (?f i # map ?f rest)"
    using r t by simp
  from diagnose_ranked[OF assms(1) this] t show ?thesis by simp
qed

text \<open>Every order that \<^verbatim>\<open>np.argsort\<close> may return.\<close>

lemma top_indices_by_argsort: "top_indices_by argsort probs = top_indices probs"
  by (simp add: top_indices_by_def top_indices_def)

lemma rank_by_argsort: "rank_by argsort cls probs = rank cls probs"
  by (simp add: rank_by_def rank_def top_indices_by_argsort)

lemma diagnose_by_argsort: "diagnose_by argsort sys symptoms = diagnose sys symptoms"
  unfolding diagnose_by_def diagnose_def rank_by_argsort by (rule refl)

lemma argsort_is_argsort: "is_argsort probs (argsort probs)"
  by (simp add: is_argsort_def argsort_def)

lemma is_argsort_mset: "is_argsort probs idxs \<Longrightarrow> mset idxs = mset [0..<length probs]"
  unfolding is_argsort_def by (rule conjunct1)

lemma is_argsort_length:
  assumes "is_argsort probs idxs"
  shows "length idxs = length probs"
proof -
  have "length idxs = length [0..<length probs]"
    using is_argsort_mset[OF assms] by (rule mset_eq_length)
  then show ?thesis by (simp only: length_upt diff_zero)
qed

lemma is_argsort_set:
  assumes "is_argsort probs idxs"
  shows "set idxs = {..<length probs}"
proof -
  have "set idxs = set [0..<length probs]"
    using is_argsort_mset[OF assms] by (rule mset_eq_setD)
  then show ?thesis by (simp only: set_upt atLeast0LessThan)
qed

lemma is_argsort_distinct:
  assumes "is_argsort probs idxs"
  shows "distinct idxs"
proof -
  have "distinct idxs = distinct [0..<length probs]"
    using is_argsort_mset[OF assms] by (rule mset_eq_imp_distinct_iff)
  then show ?thesis by (simp only: distinct_upt)
qed

lemma is_argsort_ascending:
  "is_argsort probs idxs \<Longrightarrow> sorted_wrt (\<lambda>i j. probs ! i \<le> probs ! j) idxs"
  by (simp add: is_argsort_def sorted_map)

lemma length_top_indices_by:
  "is_argsort probs (order probs) \<Longrightarrow>
   length (top_indices_by order probs) = min 3 (length probs)"
  using is_argsort_length[of probs "order probs"] by (simp add: top_indices_by_def)

lemma distinct_top_indices_by:
  "is_argsort probs (order probs) \<Longrightarrow> distinct (top_indices_by order probs)"
  using is_argsort_distinct[of probs "order probs"] by (simp add: top_indices_by_def)

lemma set_top_indices_by:
  assumes "is_argsort probs (order probs)"
  shows "set (top_indices_by order probs) \<subseteq> {..<length probs}"
  unfolding top_indices_by_def
  using set_drop_subset[of _ "order probs"] is_argsort_set[OF assms] by auto

lemma descending_top_indices_by:
  assumes "is_argsort probs (order probs)"
  shows "sorted_wrt (\<lambda>i j. probs ! j \<le> probs ! i) (top_indices_by order probs)"
proof -
  have "sorted_wrt (\<lambda>i j. probs ! i \<le> probs ! j)
          (drop (length (order probs) - 3) (order probs))"
    using is_argsort_ascending[OF assms] by (rule sorted_wrt_drop)
  then show ?thesis unfolding top_indices_by_def by (simp add: sorted_wrt_rev)
qed

lemma top_indices_by_best:
  assumes "is_argsort probs (order probs)"
    and "k < length probs" "k \<notin> set (top_indices_by order probs)"
    and "i \<in> set (top_indices_by order probs)"
  shows "probs ! k \<le> probs ! i"
proof -
  let ?a = "order probs" and ?m = "length (order probs) - 3"
  have "sorted_wrt (\<lambda>i j. probs ! i \<le> probs ! j) (take ?m ?a @ drop ?m ?a)"
    using is_argsort_ascending[OF assms(1)] by simp
  then have *: "\<forall>x\<in>set (take ?m ?a). \<forall>y\<in>set (drop ?m ?a). probs ! x \<le> probs ! y"
    unfolding sorted_wrt_append by blast
  have "k \<in> set ?a" using assms(2) is_argsort_set[OF assms(1)] by simp
  then have "k \<in> set (take ?m ?a) \<union> set (drop ?m ?a)"
    by (metis append_take_drop_id set_append)
  moreover have "k \<notin> set (drop ?m ?a)" using assms(3) by (simp add: top_indices_by_def)
  ultimately have "k \<in> set (take ?m ?a)" by blast
  moreover have "i \<in> set (drop ?m ?a)" using assms(4) by (simp add: top_indices_by_def)
  ultimately show ?thesis using * by blast
qed

lemma rank_by_Inr:
  assumes "is_argsort probs (order probs)" and "length probs \<le> length cls"
  shows "rank_by order cls probs =
     Inr (map (\<lambda>i. (cls ! i, probs ! i)) (top_indices_by order probs))"
  unfolding rank_by_def using set_top_indices_by[of probs order, OF assms(1)] assms(2)
  by (intro collect_entries) auto

lemma diagnose_by_ranked:
  assumes "predict_proba (model sys) (encode (symptom_columns sys) symptoms) = Inr probs"
    and "rank_by order (classes (model sys)) probs = Inr (p # ps)"
  shows "diagnose_by order sys symptoms =
     Inr \<lparr> diagnosis = fst p, confidence = snd p, possible_diagnoses = p # ps,
           disease_info = lookup_disease (diseases_df sys) (fst p),
           medicines = recommend (medicines_df sys) (fst p) \<rparr>"
  using assms by (simp add: diagnose_by_def)

lemma diagnose_by_well_formed:
  assumes "is_argsort probs (order probs)"
    and "predict_proba (model sys) (encode (symptom_columns sys) symptoms) = Inr probs"
    and "length (classes (model sys)) = length probs" and "probs \<noteq> []"
  shows "\<exists>r. diagnose_by order sys symptoms = Inr r \<and>
     possible_diagnoses r =
       map (\<lambda>i. (classes (model sys) ! i, probs ! i)) (top_indices_by order probs)"
proof -
  let ?f = "\<lambda>i. (classes (model sys) ! i, probs ! i)"
  have r: "rank_by order (classes (model sys)) probs = Inr (map ?f (top_indices_by order probs))"
    using rank_by_Inr[of probs order "classes (model sys)", OF assms(1)] assms(3) by simp
  have "length (top_indices_by order probs) \<noteq> 0"
    using length_top_indices_by[of probs order, OF assms(1)] assms(4) by simp
  then obtain i rest where t: "top_indices_by order probs = i # rest"
    by (cases "top_indices_by order probs") auto
  have "rank_by order (classes (model sys)) probs = Inr (?f i # map ?f rest)"
    using r t by simp
  from diagnose_by_ranked[OF assms(2) this] t show ?thesis by simp
qed

lemma zip_conv_map_nth:
  "length cls = length probs \<Longrightarrow>
   zip cls probs = map (\<lambda>i. (cls ! i, probs ! i)) [0..<length probs]"
  by (rule nth_equalityI) auto

lemma descending_entries:
  "sorted_wrt (\<lambda>a b. snd b \<le> snd a) (map (\<lambda>i. (cls ! i, probs ! i)) (top_indices probs))"
proof -
  have "sorted_wrt (\<lambda>i j. probs ! j \<le> probs ! i) (top_indices probs)"
    using descending_top_indices_by[of probs argsort, OF argsort_is_argsort]
    by (simp only: top_indices_by_argsort)
  then show ?thesis by (simp add: sorted_wrt_map)
qed

lemma few_top_indices: "length probs \<le> 3 \<Longrightarrow> top_indices probs = rev (argsort probs)"
  by (simp add: top_indices_def length_argsort)

lemma mset_few_entries:
  assumes "length cls = length probs" "length probs \<le> 3"
  shows "mset (map (\<lambda>i. (cls ! i, probs ! i)) (top_indices probs)) = mset (zip cls probs)"
proof -
  have "mset (argsort probs) = mset [0..<length probs]"
    by (simp add: argsort_def)
  then have "mset (map (\<lambda>i. (cls ! i, probs ! i)) (rev (argsort probs))) =
             mset (map (\<lambda>i. (cls ! i, probs ! i)) [0..<length probs])"
    by (simp only: mset_map mset_rev)
  then show ?thesis using assms by (simp only: few_top_indices zip_conv_map_nth)
qed







text \<open>
  C2, as stated, fails on a tie: the classifier lists \<open>cold\<close> before \<open>flu\<close> and gives
  both the probability 1/2, and \<open>flu\<close>, the later class, is ranked first. For these two
  equal values \<^verbatim>\<open>np.argsort\<close> returns the indices in increasing order and \<^verbatim>\<open>[::-1]\<close>
  reverses them.
\<close>

theorem diagnose_tie_counterexample:
  "classes (model tie_system) = [''cold'', ''flu''] \<and>
   predict_proba (model tie_system) (encode (symptom_columns tie_system) [''fever'']) =
     Inr [1 / 2, 1 / 2] \<and>
   map_sum id possible_diagnoses (diagnose tie_system [''fever'']) =
     Inr [(''flu'', 1 / 2), (''cold'', 1 / 2)]"
  by (simp add: diagnose_def tie_system_def tie_classifier_def rank_def entry_def
      top_indices_def argsort_def upt_rec)

text \<open>
  C2, amended. Whatever ascending order \<^verbatim>\<open>np.argsort\<close> returns, when the classifier
  answers with one probability for each of its classes (at least one), diagnose returns
  the entries of three classes (of all, if there are fewer), each class once, in
  descending order of probability, and every class that is left out has a probability no
  higher than each class returned. Nothing is said of the order among classes of equal
  probability, nor of which of them are kept when they tie for the third place.
\<close>

theorem diagnose_top3:
  assumes "is_argsort probs (order probs)"
    and "predict_proba (model sys) (encode (symptom_columns sys) symptoms) = Inr probs"
    and "length (classes (model sys)) = length probs" and "probs \<noteq> []"
  shows "\<exists>r idxs. diagnose_by order sys symptoms = Inr r \<and>
     possible_diagnoses r = map (\<lambda>i. (classes (model sys) ! i, probs ! i)) idxs \<and>
     length idxs = min 3 (length probs) \<and>
     distinct idxs \<and>
     set idxs \<subseteq> {..<length probs} \<and>
     sorted_wrt (\<lambda>i j. probs ! j \<le> probs ! i) idxs \<and>
     (\<forall>k<length probs. k \<notin> set idxs \<longrightarrow> (\<forall>i\<in>set idxs. probs ! k \<le> probs ! i))"
proof -
  from diagnose_by_well_formed[of probs order sys symptoms, OF assms] obtain r where
    r: "diagnose_by order sys symptoms = Inr r"
       "possible_diagnoses r =
          map (\<lambda>i. (classes (model sys) ! i, probs ! i)) (top_indices_by order probs)"
    by blast
  let ?idxs = "top_indices_by order probs"
  have "length ?idxs = min 3 (length probs)" by (rule length_top_indices_by[of probs order, OF assms(1)])
  moreover have "distinct ?idxs" by (rule distinct_top_indices_by[of probs order, OF assms(1)])
  moreover have "set ?idxs \<subseteq> {..<length probs}" by (rule set_top_indices_by[of probs order, OF assms(1)])
  moreover have "sorted_wrt (\<lambda>i j. probs ! j \<le> probs ! i) ?idxs"
    by (rule descending_top_indices_by[of probs order, OF assms(1)])
  moreover have "\<forall>k<length probs. k \<notin> set ?idxs \<longrightarrow> (\<forall>i\<in>set ?idxs. probs ! k \<le> probs ! i)"
    using top_indices_by_best[of probs order, OF assms(1)] by blast
  ultimately show ?thesis using r by blast
qed

theorem diagnose_top3_witness:
  "is_argsort [2 / 10, 7 / 10, 1 / 10] (argsort [2 / 10, 7 / 10, 1 / 10]) \<and>
   predict_proba (model ex_system) (encode (symptom_columns ex_system) [''fever'', ''cough'']) =
     Inr [2 / 10, 7 / 10, 1 / 10] \<and>
   length (classes (model ex_system)) = length [2 / 10, 7 / 10, 1 / 10 :: rat] \<and>
   diagnose_by argsort ex_system [''fever'', ''cough''] = diagnose ex_system [''fever'', ''cough''] \<and>
   map_sum id possible_diagnoses (diagnose_by argsort ex_system [''fever'', ''cough'']) =
     Inr [(''flu'', 7 / 10), (''cold'', 2 / 10), (''migraine'', 1 / 10)] \<and>
   is_argsort [1 / 2, 1 / 2, 1 / 4, 0] [3, 2, 1, 0] \<and>
   predict_proba (model tied_system) (encode (symptom_columns tied_system) [''fever'']) =
     Inr [1 / 2, 1 / 2, 1 / 4, 0] \<and>
   length (classes (model tied_system)) = length [1 / 2, 1 / 2, 1 / 4, 0 :: rat] \<and>
   map_sum id possible_diagnoses (diagnose_by (\<lambda>probs. [3, 2, 1, 0]) tied_system [''fever'']) =
     Inr [(''asthma'', 1 / 2), (''cold'', 1 / 2), (''flu'', 1 / 4)]"
proof -
  have h0: "is_argsort [2 / 10, 7 / 10, 1 / 10] (argsort [2 / 10, 7 / 10, 1 / 10])"
    by (simp add: is_argsort_def argsort_def upt_rec)
  have h1: "predict_proba (model ex_system)
      (encode (symptom_columns ex_system) [''fever'', ''cough'']) = Inr [2 / 10, 7 / 10, 1 / 10]"
    by (simp add: ex_system_def ex_classifier_def)
  have h2: "length (classes (model ex_system)) = length [2 / 10, 7 / 10, 1 / 10 :: rat]"
    by (simp add: ex_system_def ex_classifier_def)
  have h3: "[2 / 10, 7 / 10, 1 / 10 :: rat] \<noteq> []" by simp
  from diagnose_top3[of "[2 / 10, 7 / 10, 1 / 10]" argsort, OF h0 h1 h2 h3] obtain r where
    r: "diagnose_by argsort ex_system [''fever'', ''cough''] = Inr r"
    by blast
  have a: "map_sum id possible_diagnoses (diagnose_by argsort ex_system [''fever'', ''cough'']) =
     Inr [(''flu'', 7 / 10), (''cold'', 2 / 10), (''migraine'', 1 / 10)]"
    by (simp add: diagnose_by_def ex_system_def ex_classifier_def rank_by_def entry_def
      top_indices_by_def argsort_def upt_rec)
  have e: "diagnose_by argsort ex_system [''fever'', ''cough''] =
      diagnose ex_system [''fever'', ''cough'']"
    by (rule diagnose_by_argsort)
  have g0: "is_argsort [1 / 2, 1 / 2, 1 / 4, 0] ((\<lambda>probs. [3, 2, 1, 0]) [1 / 2, 1 / 2, 1 / 4, 0])"
    by (simp add: is_argsort_def upt_rec add_mset_commute numeral_2_eq_2 numeral_3_eq_3)
  have g1: "predict_proba (model tied_system)
      (encode (symptom_columns tied_system) [''fever'']) = Inr [1 / 2, 1 / 2, 1 / 4, 0]"
    by (simp add: tied_system_def)
  have g2: "length (classes (model tied_system)) = length [1 / 2, 1 / 2, 1 / 4, 0 :: rat]"
    by (simp add: tied_system_def)
  have g3: "[1 / 2, 1 / 2, 1 / 4, 0 :: rat] \<noteq> []" by simp
  from diagnose_top3[of "[1 / 2, 1 / 2, 1 / 4, 0]" "\<lambda>probs. [3, 2, 1, 0]", OF g0 g1 g2 g3]
  obtain q where
    q: "diagnose_by (\<lambda>probs. [3, 2, 1, 0]) tied_system [''fever''] = Inr q"
    by blast
  have b: "map_sum id possible_diagnoses
      (diagnose_by (\<lambda>probs. [3, 2, 1, 0]) tied_system [''fever'']) =
     Inr [(''asthma'', 1 / 2), (''cold'', 1 / 2), (''flu'', 1 / 4)]"
    by (simp add: diagnose_by_def tied_system_def rank_by_def entry_def top_indices_by_def)
  have g0': "is_argsort [1 / 2, 1 / 2, 1 / 4, 0] [3, 2, 1, 0]" using g0 by simp
  show ?thesis using h0 h1 h2 e a r g0' g1 g2 b q by blast
qed







text \<open>
  C7. When the classifier has one or two classes and answers with one probability for
  each, diagnose returns as many entries as there are classes, in descending order of
  probability, and they are exactly the classifier's (class, probability) pairs: nothing
  is padded and nothing is left out.
\<close>

theorem diagnose_few_classes:
  assumes "predict_proba (model sys) (encode (symptom_columns sys) symptoms) = Inr probs"
    and "length (classes (model sys)) = length probs" and "probs \<noteq> []"
    and "length (classes (model sys)) < 3"
  shows "\<exists>r. diagnose sys symptoms = Inr r \<and>
     length (possible_diagnoses r) = length (classes (model sys)) \<and>
     sorted_wrt (\<lambda>a b. snd b \<le> snd a) (possible_diagnoses r) \<and>
     mset (possible_diagnoses r) = mset (zip (classes (model sys)) probs)"
proof -
  from diagnose_well_formed[OF assms(1-3)] obtain r where
    r: "diagnose sys symptoms = Inr r"
      "possible_diagnoses r = map (\<lambda>i. (classes (model sys) ! i, probs ! i)) (top_indices probs)"
    by blast
  have "length (possible_diagnoses r) = length (classes (model sys))"
    using r(2) assms(2,4) by (simp add: length_top_indices)
  moreover have "sorted_wrt (\<lambda>a b. snd b \<le> snd a) (possible_diagnoses r)"
    unfolding r(2) by (rule descending_entries)
  moreover have "mset (possible_diagnoses r) = mset (zip (classes (model sys)) probs)"
    unfolding r(2) using assms(2,4) by (intro mset_few_entries) simp_all
  ultimately show ?thesis using r(1) by blast
qed

theorem diagnose_few_classes_witness:
  "predict_proba (model two_class_system)
      (encode (symptom_columns two_class_system) [''fever'']) = Inr [3 / 10, 7 / 10] \<and>
   length (classes (model two_class_system)) = length [3 / 10, 7 / 10 :: rat] \<and>
   length (classes (model two_class_system)) < 3 \<and>
   map_sum id possible_diagnoses (diagnose two_class_system [''fever'']) =
     Inr [(''flu'', 7 / 10), (''cold'', 3 / 10)]"
proof -
  have h1: "predict_proba (model two_class_system)
      (encode (symptom_columns two_class_system) [''fever'']) = Inr [3 / 10, 7 / 10]"
    by (simp add: two_class_system_def)
  have h2: "length (classes (model two_class_system)) = length [3 / 10, 7 / 10 :: rat]"
    by (simp add: two_class_system_def)
  have h3: "[3 / 10, 7 / 10 :: rat] \<noteq> []" by simp
  have h4: "length (classes (model two_class_system)) < 3"
    by (simp add: two_class_system_def)
  from diagnose_few_classes[OF h1 h2 h3 h4] obtain r where
    r: "diagnose two_class_system [''fever''] = Inr r"
       "length (possible_diagnoses r) = length (classes (model two_class_system))"
    by blast
  have "map_sum id possible_diagnoses (diagnose two_class_system [''fever'']) =
     Inr [(''flu'', 7 / 10), (''cold'', 3 / 10)]"
    by (simp add: diagnose_def two_class_system_def rank_def entry_def
      top_indices_def argsort_def upt_rec)
  then show ?thesis using h1 h2 h4 by blast
qed

section \<open>The empty request\<close>

lemma diagnose_endpoint_empty:
  "diagnose_endpoint sys [] =
     Inl (HTTPException 500 (Str (HTTPException 400 (Literal ''No symptoms provided''))))"
  by (simp add: diagnose_endpoint_def)

text \<open>
  C1, as stated, fails for the core operation: \<^verbatim>\<open>DiagnosisSystem.diagnose\<close> has no check
  of its own. Called with the empty list it encodes the all-zero vector, asks the
  classifier and returns a diagnosis.
\<close>

theorem diagnose_empty_counterexample:
  "encode (symptom_columns ex_system) [] = [0, 0, 0, 0] \<and>
   diagnose ex_system [] =
     Inr \<lparr> diagnosis = ''flu'', confidence = 7 / 10,
           possible_diagnoses = [(''flu'', 7 / 10), (''cold'', 2 / 10), (''migraine'', 1 / 10)],
           disease_info = placeholder ''flu'',
           medicines = [ibuprofen] \<rparr>"
  by (simp add: diagnose_def ex_system_def ex_classifier_def ex_columns_def ex_diseases_def
      ex_medicines_def paracetamol_def ibuprofen_def cetirizine_def rank_def entry_def top_indices_def argsort_def upt_rec encode_def
      lookup_disease_def recommend_def)

text \<open>
  C1, amended. For the empty symptom list the handler of POST /diagnose answers with an
  HTTP error, and with the same error whatever the diagnosis system is: the request is
  rejected before \<^verbatim>\<open>DiagnosisSystem.diagnose\<close> is called, so that neither the feature
  encoding nor the classifier runs.
\<close>

theorem diagnose_endpoint_rejects_empty:
  "\<exists>status detail. \<forall>sys. diagnose_endpoint sys [] = Inl (HTTPException status detail)"
  using diagnose_endpoint_empty by blast

section \<open>The joins\<close>

lemma lookup_disease_miss:
  "\<forall>d\<in>set df. d_name d \<noteq> primary \<Longrightarrow> lookup_disease df primary = placeholder primary"
proof -
  assume "\<forall>d\<in>set df. d_name d \<noteq> primary"
  then have "filter (\<lambda>d. d_name d = primary) df = []"
    by (simp add: filter_empty_conv)
  then show ?thesis by (simp add: lookup_disease_def)
qed

lemma rank_ex: "rank (classes (model ex_system)) [2 / 10, 7 / 10, 1 / 10] =
     Inr [(''flu'', 7 / 10), (''cold'', 2 / 10), (''migraine'', 1 / 10)]"
  by (simp add: ex_system_def ex_classifier_def rank_def entry_def top_indices_def
      argsort_def upt_rec)

lemma predict_ex: "predict_proba (model ex_system) (encode (symptom_columns ex_system) S) =
     Inr [2 / 10, 7 / 10, 1 / 10]"
  by (simp add: ex_system_def ex_classifier_def)

text \<open>
  C3, as stated, fails on the spelling of the placeholder: the code writes its texts with
  a capital first letter.
\<close>

theorem lookup_miss_counterexample:
  "filter (\<lambda>d. d_name d = ''flu'') (diseases_df ex_system) = [] \<and>
   map_sum id disease_info (diagnose ex_system [''fever'', ''cough'']) =
     Inr \<lparr> d_name = ''flu'', d_description = ''Information not available'',
           d_severity = ''Unknown'', d_contagious = ''Unknown'',
           d_precautions = ''Consult a healthcare professional'' \<rparr> \<and>
   map_sum id disease_info (diagnose ex_system [''fever'', ''cough'']) \<noteq>
     Inr \<lparr> d_name = ''flu'', d_description = ''information not available'',
           d_severity = ''unknown'', d_contagious = ''unknown'',
           d_precautions = ''consult a healthcare professional'' \<rparr>"
  by (simp add: diagnose_def ex_system_def ex_classifier_def ex_diseases_def
      rank_def entry_def top_indices_def argsort_def upt_rec
      lookup_disease_def placeholder_def)

text \<open>
  C3, amended. Whenever the ranking has a primary diagnosis and no row of the disease
  table has that name, diagnose returns a result (the miss is no error) whose
  \<open>disease_info\<close> is the placeholder: name = the primary diagnosis, description =
  "Information not available", severity = "Unknown", contagious = "Unknown",
  precautions = "Consult a healthcare professional".
\<close>

theorem lookup_miss_placeholder:
  assumes "predict_proba (model sys) (encode (symptom_columns sys) symptoms) = Inr probs"
    and "rank (classes (model sys)) probs = Inr (p # ps)"
    and "\<forall>d\<in>set (diseases_df sys). d_name d \<noteq> fst p"
  shows "\<exists>r. diagnose sys symptoms = Inr r \<and> diagnosis r = fst p \<and>
     disease_info r =
       \<lparr> d_name = fst p, d_description = ''Information not available'',
         d_severity = ''Unknown'', d_contagious = ''Unknown'',
         d_precautions = ''Consult a healthcare professional'' \<rparr>"
  using diagnose_ranked[OF assms(1,2)] lookup_disease_miss[OF assms(3)]
  by (simp add: placeholder_def)

theorem lookup_miss_placeholder_witness:
  "predict_proba (model ex_system) (encode (symptom_columns ex_system) [''fever'', ''cough'']) =
     Inr [2 / 10, 7 / 10, 1 / 10] \<and>
   rank (classes (model ex_system)) [2 / 10, 7 / 10, 1 / 10] =
     Inr ((''flu'', 7 / 10) # [(''cold'', 2 / 10), (''migraine'', 1 / 10)]) \<and>
   ''flu'' \<notin> set (map d_name (diseases_df ex_system)) \<and>
   map_sum id disease_info (diagnose ex_system [''fever'', ''cough'']) =
     Inr \<lparr> d_name = ''flu'', d_description = ''Information not available'',
           d_severity = ''Unknown'', d_contagious = ''Unknown'',
           d_precautions = ''Consult a healthcare professional'' \<rparr>"
proof -
  have h1: "predict_proba (model ex_system)
      (encode (symptom_columns ex_system) [''fever'', ''cough'']) = Inr [2 / 10, 7 / 10, 1 / 10]"
    by (rule predict_ex)
  have h2: "rank (classes (model ex_system)) [2 / 10, 7 / 10, 1 / 10] =
     Inr ((''flu'', 7 / 10) # [(''cold'', 2 / 10), (''migraine'', 1 / 10)])"
    by (rule rank_ex)
  have h3: "\<forall>d\<in>set (diseases_df ex_system). d_name d \<noteq> fst (''flu'', 7 / 10 :: rat)"
    by (simp add: ex_system_def ex_diseases_def)
  from lookup_miss_placeholder[OF h1 h2 h3] obtain r where
    "diagnose ex_system [''fever'', ''cough''] = Inr r"
    "disease_info r = \<lparr> d_name = ''flu'', d_description = ''Information not available'',
         d_severity = ''Unknown'', d_contagious = ''Unknown'',
         d_precautions = ''Consult a healthcare professional'' \<rparr>"
    by auto
  then have "map_sum id disease_info (diagnose ex_system [''fever'', ''cough'']) =
     Inr \<lparr> d_name = ''flu'', d_description = ''Information not available'',
           d_severity = ''Unknown'', d_contagious = ''Unknown'',
           d_precautions = ''Consult a healthcare professional'' \<rparr>"
    by simp
  moreover have "''flu'' \<notin> set (map d_name (diseases_df ex_system))"
    by (simp add: ex_system_def ex_diseases_def)
  ultimately show ?thesis using h1 h2 by simp
qed

text \<open>
  C4. Whenever the ranking has a primary diagnosis, diagnose returns a result whose
  medicines are the rows of the medicine table whose \<open>diagnosis\<close> cell equals the primary
  diagnosis as a string, in table order, and no others. String equality distinguishes
  "Flu" from "flu". The result is returned also when no row matches: the list is empty.
\<close>

theorem medicines_exact_match:
  assumes "predict_proba (model sys) (encode (symptom_columns sys) symptoms) = Inr probs"
    and "rank (classes (model sys)) probs = Inr (p # ps)"
  shows "\<exists>r. diagnose sys symptoms = Inr r \<and> diagnosis r = fst p \<and>
     medicines r = filter (\<lambda>m. m_diagnosis m = diagnosis r) (medicines_df sys) \<and>
     set (medicines r) = {m \<in> set (medicines_df sys). m_diagnosis m = diagnosis r}"
  using diagnose_ranked[OF assms] by (simp add: recommend_def)


theorem medicines_exact_match_witness:
  "predict_proba (model flu_system) (encode (symptom_columns flu_system) [''fever'']) =
     Inr [1 / 4, 3 / 4] \<and>
   rank (classes (model flu_system)) [1 / 4, 3 / 4] = Inr ((''Flu'', 3 / 4) # [(''Cold'', 1 / 4)]) \<and>
   map_sum id medicines (diagnose flu_system [''fever'']) = Inr [paracetamol] \<and>
   predict_proba (model ex_system) (encode (symptom_columns ex_system) [''fever'']) =
     Inr [2 / 10, 7 / 10, 1 / 10] \<and>
   rank (classes (model ex_system)) [2 / 10, 7 / 10, 1 / 10] =
     Inr ((''flu'', 7 / 10) # [(''cold'', 2 / 10), (''migraine'', 1 / 10)]) \<and>
   map_sum id medicines (diagnose ex_system [''fever'']) = Inr [ibuprofen] \<and>
   map_sum id medicines (diagnose (ex_system\<lparr>medicines_df := [paracetamol]\<rparr>) [''fever'']) = Inr []"
proof -
  have a1: "predict_proba (model flu_system) (encode (symptom_columns flu_system) [''fever'']) =
     Inr [1 / 4, 3 / 4]"
    by (simp add: flu_system_def)
  have a2: "rank (classes (model flu_system)) [1 / 4, 3 / 4] =
     Inr ((''Flu'', 3 / 4) # [(''Cold'', 1 / 4)])"
    by (simp add: flu_system_def rank_def entry_def top_indices_def argsort_def upt_rec)
  from medicines_exact_match[OF a1 a2] obtain r where
    r: "diagnose flu_system [''fever''] = Inr r" "diagnosis r = ''Flu''"
       "medicines r = filter (\<lambda>m. m_diagnosis m = diagnosis r) (medicines_df flu_system)"
    by auto
  have a: "map_sum id medicines (diagnose flu_system [''fever'']) = Inr [paracetamol]"
    using r by (simp add: flu_system_def ex_medicines_def paracetamol_def ibuprofen_def cetirizine_def)
  have b1: "predict_proba (model ex_system) (encode (symptom_columns ex_system) [''fever'']) =
     Inr [2 / 10, 7 / 10, 1 / 10]"
    by (rule predict_ex)
  have b2: "rank (classes (model ex_system)) [2 / 10, 7 / 10, 1 / 10] =
     Inr ((''flu'', 7 / 10) # [(''cold'', 2 / 10), (''migraine'', 1 / 10)])"
    by (rule rank_ex)
  from medicines_exact_match[OF b1 b2] obtain q where
    q: "diagnose ex_system [''fever''] = Inr q" "diagnosis q = ''flu''"
       "medicines q = filter (\<lambda>m. m_diagnosis m = diagnosis q) (medicines_df ex_system)"
    by auto
  have b: "map_sum id medicines (diagnose ex_system [''fever'']) = Inr [ibuprofen]"
    using q by (simp add: ex_system_def ex_medicines_def paracetamol_def ibuprofen_def cetirizine_def)
  let ?sys = "ex_system\<lparr>medicines_df := [paracetamol]\<rparr>"
  have c1: "predict_proba (model ?sys) (encode (symptom_columns ?sys) [''fever'']) =
     Inr [2 / 10, 7 / 10, 1 / 10]"
    using predict_ex by simp
  have c2: "rank (classes (model ?sys)) [2 / 10, 7 / 10, 1 / 10] =
     Inr ((''flu'', 7 / 10) # [(''cold'', 2 / 10), (''migraine'', 1 / 10)])"
    using rank_ex by simp
  from medicines_exact_match[OF c1 c2] obtain t where
    t: "diagnose ?sys [''fever''] = Inr t" "diagnosis t = ''flu''"
       "medicines t = filter (\<lambda>m. m_diagnosis m = diagnosis t) (medicines_df ?sys)"
    by auto
  have c: "map_sum id medicines (diagnose ?sys [''fever'']) = Inr []"
    using t by (simp add: paracetamol_def)
  show ?thesis using a1 a2 a b1 b2 b c by blast
qed

section \<open>The medicine text matcher\<close>

lemma contains_sublist: "contains t pat = sublist pat t"
  by (induction t) (simp_all add: sublist_Cons_right)

lemma foldl_match_step:
  "foldl (match_step text) acc df =
   acc @ filter (\<lambda>row. contains text (lower (m_name row))) df"
  by (induction df arbitrary: acc) (simp_all add: match_step_def)

lemma find_matches_filter:
  "find_matches text df = filter (\<lambda>row. contains text (lower (m_name row))) df"
  by (simp add: find_matches_def foldl_match_step)

lemma matches_of_match_text:
  "matches_of (match_text df ocr_text) =
     filter (\<lambda>row. contains (lower (strip ocr_text)) (lower (m_name row))) df"
  by (simp add: match_text_def Let_def find_matches_filter)

text \<open>
  C8, as stated, fails where the stripping of the text matters: the lowercased name
  "aspirin " (with its final space) occurs in the lowercased text "take aspirin ", but
  the text is stripped before the search and the record is not matched.
\<close>

theorem match_text_counterexample:
  "lower ''Take Aspirin '' = ''take '' @ lower (m_name aspirin) @ [] \<and>
   match_text [aspirin] ''Take Aspirin '' =
     Not_found ''No medicine information found in the image'' ''take aspirin''"
  by code_simp

text \<open>
  C8, amended. The matcher strips the text and lowercases it. A record of the catalog is
  in the match set if and only if its lowercased name occurs as a contiguous substring
  of the stripped and lowercased text. When no record matches, the response is "not
  found" and carries the stripped and lowercased text; otherwise it is a success with
  the matched records and that text.
\<close>

theorem match_text_spec:
  "(\<forall>row. row \<in> set (matches_of (match_text df ocr_text)) \<longleftrightarrow>
       row \<in> set df \<and>
       (\<exists>before after. lower (strip ocr_text) = before @ lower (m_name row) @ after)) \<and>
   (matches_of (match_text df ocr_text) = [] \<longrightarrow>
      match_text df ocr_text =
        Not_found ''No medicine information found in the image'' (lower (strip ocr_text))) \<and>
   (matches_of (match_text df ocr_text) \<noteq> [] \<longrightarrow>
      match_text df ocr_text =
        Success (matches_of (match_text df ocr_text)) (lower (strip ocr_text)))"
proof (intro conjI allI impI)
  fix row
  show "row \<in> set (matches_of (match_text df ocr_text)) \<longleftrightarrow>
       row \<in> set df \<and>
       (\<exists>before after. lower (strip ocr_text) = before @ lower (m_name row) @ after)"
    by (simp add: matches_of_match_text contains_sublist sublist_def)
next
  assume "matches_of (match_text df ocr_text) = []"
  then show "match_text df ocr_text =
        Not_found ''No medicine information found in the image'' (lower (strip ocr_text))"
    by (simp add: match_text_def Let_def split: if_splits)
next
  assume "matches_of (match_text df ocr_text) \<noteq> []"
  then show "match_text df ocr_text =
        Success (matches_of (match_text df ocr_text)) (lower (strip ocr_text))"
    by (simp add: match_text_def Let_def split: if_splits)
qed

theorem match_text_spec_witness:
  "matches_of (match_text ex_medicines ''I took ParAcetamol today'') \<noteq> [] \<and>
   match_text ex_medicines ''I took ParAcetamol today'' =
     Success [paracetamol] ''i took paracetamol today'' \<and>
   matches_of (match_text ex_medicines ''  No pills here '') = [] \<and>
   match_text ex_medicines ''  No pills here '' =
     Not_found ''No medicine information found in the image'' ''no pills here''"
proof -
  have m1: "matches_of (match_text ex_medicines ''I took ParAcetamol today'') = [paracetamol]"
    by code_simp
  then have h1: "matches_of (match_text ex_medicines ''I took ParAcetamol today'') \<noteq> []"
    by simp
  have t1: "lower (strip ''I took ParAcetamol today'') = ''i took paracetamol today''"
    by code_simp
  have h2: "matches_of (match_text ex_medicines ''  No pills here '') = []"
    by code_simp
  have t2: "lower (strip ''  No pills here '') = ''no pills here''"
    by code_simp
  from match_text_spec[of ex_medicines "''I took ParAcetamol today''"] h1
  have a: "match_text ex_medicines ''I took ParAcetamol today'' =
     Success [paracetamol] ''i took paracetamol today''"
    unfolding m1 t1 by blast
  from match_text_spec[of ex_medicines "''  No pills here ''"] h2
  have b: "match_text ex_medicines ''  No pills here '' =
     Not_found ''No medicine information found in the image'' ''no pills here''"
    unfolding t2 by blast
  show ?thesis using h1 a h2 b by blast
qed

text \<open>
  C10. The match set is the catalog filtered by the substring test: the matching records
  appear in the order of their rows in the catalog, whatever the order of the names in
  the text, and the output is a function of the catalog and the text.
\<close>

theorem match_text_order:
  "matches_of (match_text df ocr_text) =
     filter (\<lambda>row. contains (lower (strip ocr_text)) (lower (m_name row))) df \<and>
   subseq (matches_of (match_text df ocr_text)) df"
  by (simp add: matches_of_match_text)


theorem match_text_order_witness:
  "ex_medicines = [paracetamol, ibuprofen, cetirizine] \<and>
   matches_of (match_text ex_medicines ''CETIRIZINE 10mg, paracetamol 500mg'') =
     [paracetamol, cetirizine]"
proof -
  have e: "ex_medicines = [paracetamol, ibuprofen, cetirizine]"
    by (rule ex_medicines_def)
  have t: "lower (strip ''CETIRIZINE 10mg, paracetamol 500mg'') = ''cetirizine 10mg, paracetamol 500mg''"
    by code_simp
  from match_text_order[of ex_medicines "''CETIRIZINE 10mg, paracetamol 500mg''"]
  have "matches_of (match_text ex_medicines ''CETIRIZINE 10mg, paracetamol 500mg'') =
     filter (\<lambda>row. contains ''cetirizine 10mg, paracetamol 500mg'' (lower (m_name row)))
       [paracetamol, ibuprofen, cetirizine]"
    unfolding t e by blast
  also have "\<dots> = [paracetamol, cetirizine]"
    by code_simp
  finally show ?thesis using e by blast
qed

section \<open>Initialization\<close>

lemma init_Inr_iff:
  "init fs = Inr sys \<longleftrightarrow>
     (\<exists>m ls ds ms. model_file fs = Content m \<and> columns_file fs = Content ls \<and>
        diseases_file fs = Content ds \<and> medicines_file fs = Content ms \<and>
        ds \<noteq> [] \<and> ms \<noteq> [] \<and>
        sys = \<lparr> model = m, symptom_columns = map strip ls,
                diseases_df = ds, medicines_df = ms \<rparr>)"
  by (auto simp: init_def path_exists_def joblib_load_def read_lines_def read_csv_def
      load_def split: source.splits)

text \<open>
  C9, as stated, fails for the vocabulary: a vocabulary file without any line loads as
  the empty list and the constructor succeeds. Only the two CSV tables are checked for
  emptiness.
\<close>

theorem init_empty_vocabulary_counterexample:
  "init (ex_files\<lparr>columns_file := Content []\<rparr>) =
     Inr \<lparr> model = ex_classifier, symptom_columns = [],
           diseases_df = ex_diseases, medicines_df = ex_medicines \<rparr>"
  by (simp add: init_def ex_files_def path_exists_def joblib_load_def read_lines_def
      read_csv_def load_def ex_diseases_def ex_medicines_def)

text \<open>
  C9, amended. The constructor fails with an error exactly when the model artifact, the
  vocabulary file, the disease table or the medicine table is missing, unreadable or
  rejected by its loader, or when the disease table or the medicine table loads without
  rows. When it succeeds, the system holds the loaded classifier, the stripped lines of
  the vocabulary file and the rows of both tables.
\<close>

theorem init_fails_fast:
  "((\<exists>e. init fs = Inl e) \<longleftrightarrow>
      \<not> usable (model_file fs) \<or> \<not> usable (columns_file fs) \<or>
      \<not> usable (diseases_file fs) \<or> \<not> usable (medicines_file fs) \<or>
      diseases_file fs = Content [] \<or> medicines_file fs = Content []) \<and>
   (init fs = Inr sys \<longleftrightarrow>
     (\<exists>m ls ds ms. model_file fs = Content m \<and> columns_file fs = Content ls \<and>
        diseases_file fs = Content ds \<and> medicines_file fs = Content ms \<and>
        ds \<noteq> [] \<and> ms \<noteq> [] \<and>
        sys = \<lparr> model = m, symptom_columns = map strip ls,
                diseases_df = ds, medicines_df = ms \<rparr>))"
proof
  show "(\<exists>e. init fs = Inl e) \<longleftrightarrow>
      \<not> usable (model_file fs) \<or> \<not> usable (columns_file fs) \<or>
      \<not> usable (diseases_file fs) \<or> \<not> usable (medicines_file fs) \<or>
      diseases_file fs = Content [] \<or> medicines_file fs = Content []"
    by (cases "model_file fs"; cases "columns_file fs"; cases "diseases_file fs";
        cases "medicines_file fs")
      (simp_all add: init_def path_exists_def joblib_load_def read_lines_def read_csv_def
        load_def usable_def)
  show "init fs = Inr sys \<longleftrightarrow>
     (\<exists>m ls ds ms. model_file fs = Content m \<and> columns_file fs = Content ls \<and>
        diseases_file fs = Content ds \<and> medicines_file fs = Content ms \<and>
        ds \<noteq> [] \<and> ms \<noteq> [] \<and>
        sys = \<lparr> model = m, symptom_columns = map strip ls,
                diseases_df = ds, medicines_df = ms \<rparr>)"
    by (rule init_Inr_iff)
qed



theorem init_fails_fast_witness:
  "init ex_files =
     Inr \<lparr> model = ex_classifier, symptom_columns = ex_columns,
           diseases_df = ex_diseases, medicines_df = ex_medicines \<rparr> \<and>
   \<not> usable (diseases_file (ex_files\<lparr>diseases_file := Malformed\<rparr>)) \<and>
   isl (init (ex_files\<lparr>diseases_file := Malformed\<rparr>)) \<and>
   medicines_file (ex_files\<lparr>medicines_file := Content []\<rparr>) = Content [] \<and>
   isl (init (ex_files\<lparr>medicines_file := Content []\<rparr>))"
proof -
  let ?sys = "\<lparr> model = ex_classifier, symptom_columns = ex_columns,
           diseases_df = ex_diseases, medicines_df = ex_medicines \<rparr>"
  have s: "map strip [''fever'', ''cough '', ''headache'', ''sore_throat''] = ex_columns"
    by (simp add: strip_def is_space_def ex_columns_def)
  have "\<exists>m ls ds ms. model_file ex_files = Content m \<and> columns_file ex_files = Content ls \<and>
        diseases_file ex_files = Content ds \<and> medicines_file ex_files = Content ms \<and>
        ds \<noteq> [] \<and> ms \<noteq> [] \<and>
        ?sys = \<lparr> model = m, symptom_columns = map strip ls,
                diseases_df = ds, medicines_df = ms \<rparr>"
    using s by (simp add: ex_files_def ex_diseases_def ex_medicines_def)
  with init_fails_fast[of ex_files ?sys] have a: "init ex_files = Inr ?sys" by blast
  have b: "\<not> usable (diseases_file (ex_files\<lparr>diseases_file := Malformed\<rparr>))"
    by (simp add: usable_def)
  with init_fails_fast[of "ex_files\<lparr>diseases_file := Malformed\<rparr>"]
  have b': "isl (init (ex_files\<lparr>diseases_file := Malformed\<rparr>))"
    by (metis sum.disc(1))
  have c: "medicines_file (ex_files\<lparr>medicines_file := Content []\<rparr>) = Content []"
    by simp
  with init_fails_fast[of "ex_files\<lparr>medicines_file := Content []\<rparr>"]
  have c': "isl (init (ex_files\<lparr>medicines_file := Content []\<rparr>))"
    by (metis sum.disc(1))
  show ?thesis using a b b' c c' by blast
qed

end
